theory Spec2Isabelle
  imports Complex_Main "HOL-Library.Word"
begin

section \<open>Tirtha data model (tirtha/models.py)\<close>

text \<open>
  A shallow embedding of the Django models of \<^verbatim>\<open>tirtha_bk/tirtha/models.py\<close>.
  Python strings are \<open>string\<close>; an exception raised by the source is a value of the
  type \<open>exn\<close>; the database and the media directory are an explicit state that every
  operation takes and returns. An operation returns a pair: what the call produced
  (\<open>Inl\<close> the exception raised, \<open>Inr\<close> the updated model instance) and the state at
  the moment the call ended, so that a write made before a later \<^verbatim>\<open>raise\<close> stays
  visible.
\<close>

subsection \<open>Exceptions\<close>

text \<open>
  The exception classes that matter here: Python's built-in \<^verbatim>\<open>ValueError\<close>,
  \<^verbatim>\<open>ZeroDivisionError\<close>, \<^verbatim>\<open>OverflowError\<close>, \<^verbatim>\<open>FileNotFoundError\<close>
  and \<^verbatim>\<open>AttributeError\<close>, and Django's \<^verbatim>\<open>ValidationError\<close> and
  \<^verbatim>\<open>ObjectDoesNotExist\<close> (django.core.exceptions), \<^verbatim>\<open>IntegrityError\<close> and
  \<^verbatim>\<open>DatabaseError\<close> (django.db). Each carries its message. \<^verbatim>\<open>ValueError\<close> and
  \<^verbatim>\<open>ValidationError\<close> are unrelated classes: neither is a subclass of the other.
\<close>

datatype exn =
    ValueError string
  | ValidationError string
  | IntegrityError string
  | ZeroDivisionError string
  | OverflowError string
  | FileNotFoundError string
  | AttributeError string
  | DoesNotExist string
  | DatabaseError string



fun is_IntegrityError :: "exn \<Rightarrow> bool" where
  "is_IntegrityError (IntegrityError _) = True"
| "is_IntegrityError _ = False"

text \<open>\<open>raises P r\<close>: the call whose outcome is \<open>r\<close> raised an exception of class \<open>P\<close>.\<close>

fun raises :: "(exn \<Rightarrow> bool) \<Rightarrow> exn + 'a \<Rightarrow> bool" where
  "raises P (Inl e) = P e"
| "raises P (Inr _) = False"

fun succeeds :: "exn + 'a \<Rightarrow> bool" where
  "succeeds (Inl _) = False"
| "succeeds (Inr _) = True"

subsection \<open>Strings\<close>

text \<open>\<^verbatim>\<open>s.startswith(p)\<close>\<close>

definition startswith :: "string \<Rightarrow> string \<Rightarrow> bool" where
  "startswith s p = (take (length p) s = p)"

text \<open>
  \<^verbatim>\<open>s.replace(" ", "_")\<close> with one-character arguments: every occurrence of the
  first character becomes the second.
\<close>

definition replace :: "char \<Rightarrow> char \<Rightarrow> string \<Rightarrow> string" where
  "replace old new s = map (\<lambda>c. if c = old then new else c) s"

text \<open>
  \<^verbatim>\<open>s.split(sep)\<close> for a one-character separator: the list of the tokens between the
  separators, never empty (a string without the separator is its own single token).
\<close>

fun split :: "char \<Rightarrow> string \<Rightarrow> string list" where
  "split sep [] = [[]]"
| "split sep (c # cs) =
     (if c = sep then [] # split sep cs
      else (case split sep cs of [] \<Rightarrow> [[c]] | t # ts \<Rightarrow> (c # t) # ts))"

text \<open>
  \<^verbatim>\<open>s.lower()\<close> on the ASCII letters; a \<open>char\<close> is a byte, and the bytes outside
  \<^verbatim>\<open>A-Z\<close> are left as they are.
\<close>

definition lower_char :: "char \<Rightarrow> char" where
  "lower_char c =
     (case map_of (zip ''ABCDEFGHIJKLMNOPQRSTUVWXYZ'' ''abcdefghijklmnopqrstuvwxyz'') c of
        Some l \<Rightarrow> l
      | None \<Rightarrow> c)"

definition lower :: "string \<Rightarrow> string" where
  "lower s = map lower_char s"

text \<open>
  \<^verbatim>\<open>os.path.join(a, b)\<close> (posixpath, two components): an absolute \<open>b\<close> replaces
  \<open>a\<close>; otherwise the two are joined with one separator, none when \<open>a\<close> is empty or
  already ends with one.
\<close>

definition os_path_join :: "string \<Rightarrow> string \<Rightarrow> string" where
  "os_path_join a b =
     (if startswith b ''/'' then b
      else if a = [] \<or> last a = CHR ''/'' then a @ b
      else a @ ''/'' @ b)"

text \<open>\<^verbatim>\<open>str(n)\<close> for a non-negative integer, and the zero-padded \<^verbatim>\<open>%0kd\<close>.\<close>

definition digit :: "nat \<Rightarrow> char" where
  "digit n = ''0123456789abcdef'' ! (n mod 16)"

fun decimal :: "nat \<Rightarrow> string" where
  "decimal n = (if n < 10 then [digit n] else decimal (n div 10) @ [digit (n mod 10)])"

definition zero_pad :: "nat \<Rightarrow> nat \<Rightarrow> string" where
  "zero_pad k n = replicate (k - length (decimal n)) (CHR ''0'') @ decimal n"

text \<open>\<^verbatim>\<open>'%0kx' % n\<close>: the \<open>k\<close> low hexadecimal digits of \<open>n\<close>, most significant first.\<close>

fun hex :: "nat \<Rightarrow> nat \<Rightarrow> string" where
  "hex 0 n = []"
| "hex (Suc k) n = hex k (n div 16) @ [digit n]"

subsection \<open>Identifiers\<close>

text \<open>
  A \<^verbatim>\<open>ShortUUIDField\<close> holds a string. A \<^verbatim>\<open>UUIDField\<close> holds a
  \<^verbatim>\<open>uuid.UUID\<close>, a 128-bit number; \<^verbatim>\<open>str(u)\<close> prints its 32 hexadecimal
  digits in the groups 8-4-4-4-12.
\<close>

type_synonym uuid = "128 word"

definition uuid_str :: "uuid \<Rightarrow> string" where
  "uuid_str u =
     (let h = hex 32 (unat u)
      in take 8 h @ ''-'' @ take 4 (drop 8 h) @ ''-'' @ take 4 (drop 12 h) @ ''-'' @
         take 4 (drop 16 h) @ ''-'' @ drop 20 h)"

subsection \<open>Timestamps\<close>

text \<open>
  A \<^verbatim>\<open>datetime\<close> value, by its calendar fields (the sub-second part plays no role in
  this file). \<open>valid_datetime\<close> is the range of a four-digit year and of the other
  fields; every value of \<^verbatim>\<open>timezone.now()\<close> lies in it.
\<close>

record datetime =
  year :: nat
  month :: nat
  day :: nat
  hour :: nat
  minute :: nat
  second :: nat

definition valid_datetime :: "datetime \<Rightarrow> bool" where
  "valid_datetime t =
     (1000 \<le> year t \<and> year t \<le> 9999 \<and> 1 \<le> month t \<and> month t \<le> 12 \<and>
      1 \<le> day t \<and> day t \<le> 31 \<and> hour t < 24 \<and> minute t < 60 \<and> second t < 60)"

text \<open>\<^verbatim>\<open>t.strftime('%Y-%m-%d-%H-%M-%S')\<close>\<close>

definition strftime :: "datetime \<Rightarrow> string" where
  "strftime t =
     zero_pad 4 (year t) @ ''-'' @ zero_pad 2 (month t) @ ''-'' @ zero_pad 2 (day t) @ ''-'' @
     zero_pad 2 (hour t) @ ''-'' @ zero_pad 2 (minute t) @ ''-'' @ zero_pad 2 (second t)"

subsection \<open>Tables\<close>

text \<open>
  A table is the list of its rows. \<open>lookup\<close> is a query by primary key;
  \<open>upsert\<close> is what Django's base \<^verbatim>\<open>Model.save()\<close> does with a row: UPDATE the row
  that has this primary key, INSERT when there is none.
\<close>

definition lookup :: "('r \<Rightarrow> 'k) \<Rightarrow> 'k \<Rightarrow> 'r list \<Rightarrow> 'r option" where
  "lookup pk k rows = find (\<lambda>r. pk r = k) rows"

fun upsert :: "('r \<Rightarrow> 'k) \<Rightarrow> 'r \<Rightarrow> 'r list \<Rightarrow> 'r list" where
  "upsert pk r [] = [r]"
| "upsert pk r (x # xs) = (if pk x = pk r then r # xs else x # upsert pk r xs)"

subsection \<open>The models\<close>

text \<open>
  One record per model class, a field per column; a name that several classes use
  carries its class in front. A \<^verbatim>\<open>CharField\<close> or \<^verbatim>\<open>TextField\<close> is a string (the
  \<^verbatim>\<open>choices\<close> of a status column are not checked by \<^verbatim>\<open>save()\<close>), an
  \<^verbatim>\<open>ImageField\<close> is the name of its file under the media root (empty when no file
  is set), a \<^verbatim>\<open>ForeignKey\<close> is the primary key it refers to, a nullable column is an
  \<open>option\<close>. An \<^verbatim>\<open>auto_now_add\<close> or \<^verbatim>\<open>auto_now\<close> timestamp is \<open>None\<close> on an
  instance that was never saved.
\<close>

record Mesh =
  Mesh_ID :: string
  Mesh_name :: string
  description :: string
  country :: string
  state :: string
  district :: string
  preview :: string
  thumbnail :: string
  verbose_id :: string
  Mesh_status :: string
  completed :: bool
  hidden :: bool
  center_image :: string
  Mesh_rotaX :: int
  Mesh_rotaY :: int
  Mesh_rotaZ :: int
  orientMesh :: bool
  minObsAng :: int
  denoise :: bool
  Mesh_created_at :: "datetime option"
  Mesh_updated_at :: "datetime option"
  reconstructed_at :: "datetime option"

record Contributor =
  Contributor_ID :: uuid
  Contributor_name :: string
  email :: string
  active :: bool
  Contributor_created_at :: "datetime option"
  Contributor_updated_at :: "datetime option"
  banned :: bool
  ban_reason :: string

record Contribution =
  Contribution_ID :: uuid
  Contribution_mesh :: string
  Contribution_contributor :: uuid
  contributed_at :: "datetime option"
  processed :: bool
  processed_at :: "datetime option"

record Image =
  Image_ID :: uuid
  Image_contribution :: uuid
  Image_image :: string
  Image_created_at :: "datetime option"
  label :: string
  remark :: string

record ARK =
  ark :: string
  naan :: string
  shoulder :: string
  assigned_name :: string
  ARK_created_at :: "datetime option"
  url :: string
  metadata :: string
  commitment :: string

record Run =
  Run_ID :: string
  Run_mesh :: string
  Run_ark :: "string option"
  started_at :: "datetime option"
  ended_at :: "datetime option"
  directory :: string
  Run_status :: string
  Run_rotaX :: "int option"
  Run_rotaY :: "int option"
  Run_rotaZ :: "int option"

text \<open>
  The \<^verbatim>\<open>on_delete\<close> rules that the file uses, and the rule each foreign key
  declares. The rule of a foreign key says what happens to the row that holds the key
  when the row it refers to is deleted.
\<close>

datatype on_delete = CASCADE | DO_NOTHING

definition Contribution_mesh_on_delete :: on_delete where
  "Contribution_mesh_on_delete = CASCADE"

definition Contribution_contributor_on_delete :: on_delete where
  "Contribution_contributor_on_delete = CASCADE"

definition Image_contribution_on_delete :: on_delete where
  "Image_contribution_on_delete = CASCADE"

definition Run_mesh_on_delete :: on_delete where
  "Run_mesh_on_delete = CASCADE"

definition Run_ark_on_delete :: on_delete where
  "Run_ark_on_delete = DO_NOTHING"

subsection \<open>The state: database and media files\<close>

text \<open>
  A stored picture, as far as \<^verbatim>\<open>Mesh.save\<close> looks at it: its pixel size and its
  EXIF orientation tag (1 to 8; 0 when the file has none).
\<close>

record picture =
  width :: int
  height :: int
  orientation :: nat

text \<open>
  The tables of the six models, the join tables of the two many-to-many fields of
  \<^verbatim>\<open>Run\<close>, and the files under the media root, by name.
\<close>

record database =
  Mesh_objects :: "Mesh list"
  Contributor_objects :: "Contributor list"
  Contribution_objects :: "Contribution list"
  Image_objects :: "Image list"
  ARK_objects :: "ARK list"
  Run_objects :: "Run list"
  Run_contributors :: "(string \<times> uuid) list"
  Run_images :: "(string \<times> uuid) list"
  media :: "(string \<times> picture) list"

subsection \<open>Upload paths\<close>

text \<open>
  \<^verbatim>\<open>set_preview\<close> (lines 11-21) and \<^verbatim>\<open>set_thumbnail\<close> (lines 24-32):
  \<^verbatim>\<open>
  upload_to = f"models/{obj.ID}"
  filename = f"{obj.ID}_prev.png"
  return os.path.join(upload_to, filename)
  \<close>
  The parameter \<^verbatim>\<open>filename\<close> is overwritten before it is read.
\<close>

definition set_preview :: "Mesh \<Rightarrow> string \<Rightarrow> string" where
  "set_preview obj filename =
     (let upload_to = ''models/'' @ Mesh_ID obj;
          filename = Mesh_ID obj @ ''_prev.png''
      in os_path_join upload_to filename)"

definition set_thumbnail :: "Mesh \<Rightarrow> string \<Rightarrow> string" where
  "set_thumbnail obj filename =
     (let upload_to = ''models/'' @ Mesh_ID obj;
          filename = Mesh_ID obj @ ''_thumb.png''
      in os_path_join upload_to filename)"


subsection \<open>ARK\<close>

text \<open>\<^verbatim>\<open>ARK.__str__\<close>: \<^verbatim>\<open>f"ark:/{self.ark}"\<close>\<close>

definition ARK_str :: "ARK \<Rightarrow> string" where
  "ARK_str a = ''ark:/'' @ ark a"



subsection \<open>Run\<close>

text \<open>
  The base \<^verbatim>\<open>Model.save()\<close> on the Run table, with no arguments: all columns are
  written. \<^verbatim>\<open>auto_now_add\<close> stamps \<^verbatim>\<open>started_at\<close> when the row is inserted. The
  database then checks the constraints that the columns declare: \<^verbatim>\<open>started_at\<close> is
  not nullable, \<^verbatim>\<open>mesh\<close> must refer to a Mesh row, \<^verbatim>\<open>ark\<close> (nullable) to an ARK
  row, and, the field being one-to-one, to an ARK that no other Run refers to.
\<close>

definition Run_super_save :: "datetime \<Rightarrow> database \<Rightarrow> Run \<Rightarrow> (exn + Run) \<times> database" where
  "Run_super_save now db r =
     (let r' = (if lookup Run_ID (Run_ID r) (Run_objects db) = None
                then r\<lparr>started_at := Some now\<rparr> else r)
      in if started_at r' = None
         then (Inl (IntegrityError ''NOT NULL constraint failed: started_at''), db)
         else if lookup Mesh_ID (Run_mesh r') (Mesh_objects db) = None
         then (Inl (IntegrityError ''FOREIGN KEY constraint failed: mesh''), db)
         else if Run_ark r' \<noteq> None \<and>
                 find (\<lambda>a. Some (ark a) = Run_ark r') (ARK_objects db) = None
         then (Inl (IntegrityError ''FOREIGN KEY constraint failed: ark''), db)
         else if Run_ark r' \<noteq> None \<and>
                 find (\<lambda>x. Run_ID x \<noteq> Run_ID r' \<and> Run_ark x = Run_ark r') (Run_objects db) \<noteq> None
         then (Inl (IntegrityError ''UNIQUE constraint failed: ark''), db)
         else (Inr r', db\<lparr>Run_objects := upsert Run_ID r' (Run_objects db)\<rparr>))"

text \<open>
  \<^verbatim>\<open>super().save(update_fields=["directory"])\<close>: an UPDATE of the one column of the
  row with this primary key; Django raises \<^verbatim>\<open>DatabaseError\<close> when no row has it.
\<close>

definition Run_super_save_directory :: "database \<Rightarrow> Run \<Rightarrow> (exn + Run) \<times> database" where
  "Run_super_save_directory db r =
     (if lookup Run_ID (Run_ID r) (Run_objects db) = None
      then (Inl (DatabaseError ''Save with update_fields did not affect any rows.''), db)
      else (Inr r,
            db\<lparr>Run_objects :=
                 map (\<lambda>x. if Run_ID x = Run_ID r then x\<lparr>directory := directory r\<rparr> else x)
                     (Run_objects db)\<rparr>))"

text \<open>
  \<^verbatim>\<open>Run.save\<close> (lines 421-425):
  \<^verbatim>\<open>
  super().save(*args, **kwargs)
  if not self.directory:
      self.directory = f"{self.mesh.ID}/cache/{self.started_at.strftime('%Y-%m-%d-%H-%M-%S')}__{str(self.ID)}"
  super().save(update_fields=["directory"])
  \<close>
  \<^verbatim>\<open>self.mesh\<close> is the Mesh row that the foreign key names (\<^verbatim>\<open>DoesNotExist\<close> without
  it); calling \<^verbatim>\<open>strftime\<close> on an unset timestamp is an \<^verbatim>\<open>AttributeError\<close>.
\<close>

definition Run_save :: "datetime \<Rightarrow> database \<Rightarrow> Run \<Rightarrow> (exn + Run) \<times> database" where
  "Run_save now db r =
     (case Run_super_save now db r of
        (Inl e, db1) \<Rightarrow> (Inl e, db1)
      | (Inr r1, db1) \<Rightarrow>
          if directory r1 = ''''
          then (case lookup Mesh_ID (Run_mesh r1) (Mesh_objects db1) of
                  None \<Rightarrow> (Inl (DoesNotExist ''Mesh matching query does not exist.''), db1)
                | Some m \<Rightarrow>
                    (case started_at r1 of
                       None \<Rightarrow> (Inl (AttributeError
                                  ''NoneType object has no attribute strftime''), db1)
                     | Some t \<Rightarrow>
                         Run_super_save_directory db1
                           (r1\<lparr>directory :=
                                 Mesh_ID m @ ''/cache/'' @ strftime t @ ''__'' @ Run_ID r1\<rparr>)))
          else Run_super_save_directory db1 r1)"

text \<open>
  \<^verbatim>\<open>Run.delete()\<close>, inherited from \<^verbatim>\<open>Model\<close>: the row is deleted together with the
  rows whose foreign key to it cascades. Only the join tables of the two many-to-many
  fields refer to a Run; no model of the file has a foreign key to \<^verbatim>\<open>Run\<close>. The
  foreign keys that the Run itself holds (\<^verbatim>\<open>mesh\<close>, \<^verbatim>\<open>ark\<close>) point away from it:
  their \<^verbatim>\<open>on_delete\<close> rules apply when the Mesh or the ARK is deleted.
\<close>

definition Run_delete :: "database \<Rightarrow> Run \<Rightarrow> database" where
  "Run_delete db r =
     db\<lparr>Run_objects := filter (\<lambda>x. Run_ID x \<noteq> Run_ID r) (Run_objects db),
        Run_contributors := filter (\<lambda>j. fst j \<noteq> Run_ID r) (Run_contributors db),
        Run_images := filter (\<lambda>j. fst j \<noteq> Run_ID r) (Run_images db)\<rparr>"

text \<open>
  \<^verbatim>\<open>ARK.delete()\<close>: the rule of \<^verbatim>\<open>Run.ark\<close> decides what happens to the Run that
  refers to the deleted ARK. With \<^verbatim>\<open>CASCADE\<close> the Run would be deleted too; with
  \<^verbatim>\<open>DO_NOTHING\<close> Django leaves it alone, and the database refuses the delete while
  a Run still refers to the ARK.
\<close>

definition ARK_delete :: "database \<Rightarrow> ARK \<Rightarrow> (exn + unit) \<times> database" where
  "ARK_delete db a =
     (let referring = filter (\<lambda>x. Run_ark x = Some (ark a)) (Run_objects db)
      in case Run_ark_on_delete of
           CASCADE \<Rightarrow>
             (Inr (), (fold (\<lambda>x d. Run_delete d x) referring db)
                        \<lparr>ARK_objects := filter (\<lambda>x. ark x \<noteq> ark a) (ARK_objects db)\<rparr>)
         | DO_NOTHING \<Rightarrow>
             if referring \<noteq> []
             then (Inl (IntegrityError ''FOREIGN KEY constraint failed: ark''), db)
             else (Inr (), db\<lparr>ARK_objects := filter (\<lambda>x. ark x \<noteq> ark a) (ARK_objects db)\<rparr>))"

subsection \<open>Mesh\<close>

text \<open>
  The base \<^verbatim>\<open>Model.save()\<close> on the Mesh table, with no arguments: \<^verbatim>\<open>auto_now_add\<close>
  stamps \<^verbatim>\<open>created_at\<close> when the row is inserted, \<^verbatim>\<open>auto_now\<close> stamps
  \<^verbatim>\<open>updated_at\<close> on every save, and the database checks the constraints of the
  columns: \<^verbatim>\<open>created_at\<close> is not nullable, and \<^verbatim>\<open>verbose_id\<close> is declared
  \<^verbatim>\<open>unique=True\<close> (line 62), so no other row may hold the same value.
\<close>

definition Mesh_super_save :: "datetime \<Rightarrow> database \<Rightarrow> Mesh \<Rightarrow> (exn + Mesh) \<times> database" where
  "Mesh_super_save now db m =
     (let m' = (if lookup Mesh_ID (Mesh_ID m) (Mesh_objects db) = None
                then m\<lparr>Mesh_created_at := Some now, Mesh_updated_at := Some now\<rparr>
                else m\<lparr>Mesh_updated_at := Some now\<rparr>)
      in if Mesh_created_at m' = None
         then (Inl (IntegrityError ''NOT NULL constraint failed: created_at''), db)
         else if find (\<lambda>x. Mesh_ID x \<noteq> Mesh_ID m' \<and> verbose_id x = verbose_id m')
                   (Mesh_objects db) \<noteq> None
         then (Inl (IntegrityError ''UNIQUE constraint failed: verbose_id''), db)
         else (Inr m', db\<lparr>Mesh_objects := upsert Mesh_ID m' (Mesh_objects db)\<rparr>))"

text \<open>
  Python's floating-point arithmetic, as far as \<^verbatim>\<open>Mesh.save\<close> uses it, is a
  parameter: \<open>truediv a b\<close> is \<^verbatim>\<open>a / b\<close> on two integers (\<open>b\<close> not zero),
  \<open>gt_one r\<close> is \<^verbatim>\<open>r > 1\<close>, \<open>int_mul n r\<close> is \<^verbatim>\<open>int(n * r)\<close> and
  \<open>int_div n r\<close> is \<^verbatim>\<open>int(n / r)\<close>, each with the exception it may raise. What
  is proved below holds for every such arithmetic; \<open>exact_float\<close> is the one without
  rounding error, on the rationals, with \<^verbatim>\<open>int()\<close> truncating towards zero.
\<close>

record 'f float_ops =
  truediv :: "int \<Rightarrow> int \<Rightarrow> 'f"
  gt_one :: "'f \<Rightarrow> bool"
  int_mul :: "int \<Rightarrow> 'f \<Rightarrow> exn + int"
  int_div :: "int \<Rightarrow> 'f \<Rightarrow> exn + int"

definition trunc :: "rat \<Rightarrow> int" where
  "trunc x = (if 0 \<le> x then \<lfloor>x\<rfloor> else \<lceil>x\<rceil>)"

definition exact_float :: "rat float_ops" where
  "exact_float =
     \<lparr>truediv = (\<lambda>a b. of_int a / of_int b),
      gt_one = (\<lambda>r. 1 < r),
      int_mul = (\<lambda>n r. Inr (trunc (of_int n * r))),
      int_div = (\<lambda>n r. if r = 0 then Inl (ZeroDivisionError ''float division by zero'')
                         else Inr (trunc (of_int n / r)))\<rparr>"

text \<open>
  \<^verbatim>\<open>ImageOps.exif_transpose\<close>: the picture turned as its EXIF orientation says, the
  tag removed. The orientations 5 to 8 exchange width and height.
\<close>

definition exif_transpose :: "picture \<Rightarrow> picture" where
  "exif_transpose p =
     (if orientation p \<in> {5, 6, 7, 8}
      then \<lparr>width = height p, height = width p, orientation = 0\<rparr>
      else p\<lparr>orientation := 0\<rparr>)"

text \<open>
  The target size of the thumbnail (lines 154-166):
  \<^verbatim>\<open>
  aspect_ratio = image.width / image.height
  new_width = image.width
  new_height = image.height
  min_dimension = 400
  if image.width >= min_dimension and image.height >= min_dimension:
      if aspect_ratio > 1:  # Landscape
          new_width = max(min_dimension, int(min_dimension * aspect_ratio))
          new_height = min_dimension
      else:  # Portrait
          new_width = min_dimension
          new_height = max(min_dimension, int(min_dimension / aspect_ratio))
  \<close>
\<close>

definition thumbnail_size :: "'f float_ops \<Rightarrow> picture \<Rightarrow> exn + int \<times> int" where
  "thumbnail_size fl img =
     (if height img = 0 then Inl (ZeroDivisionError ''division by zero'')
      else
        let aspect_ratio = truediv fl (width img) (height img);
            new_width = width img;
            new_height = height img;
            min_dimension = 400
        in if width img \<ge> min_dimension \<and> height img \<ge> min_dimension
           then if gt_one fl aspect_ratio
                then (case int_mul fl min_dimension aspect_ratio of
                        Inl e \<Rightarrow> Inl e
                      | Inr x \<Rightarrow> Inr (max min_dimension x, min_dimension))
                else (case int_div fl min_dimension aspect_ratio of
                        Inl e \<Rightarrow> Inl e
                      | Inr y \<Rightarrow> Inr (min_dimension, max min_dimension y))
           else Inr (new_width, new_height))"

text \<open>
  \<^verbatim>\<open>Mesh.save\<close> (lines 143-175), called with no arguments:
  \<^verbatim>\<open>
  self.verbose_id = (
      self.country + "__" + self.state + "__" + self.district + "__" + self.name
  ).replace(" ", "_")
  super().save(*args, **kwargs)
  if self.thumbnail:
      image = PILImage.open(self.thumbnail.path)
      image = ImageOps.exif_transpose(image)
      ...
      resized_image = image.resize((new_width, new_height))
      resized_image.save(self.thumbnail.path, quality=60)
      resized_image.close()
      super().save(*args, **kwargs)
  \<close>
  The resized picture is written over the file of the thumbnail, without EXIF data.
\<close>

definition Mesh_save ::
  "'f float_ops \<Rightarrow> datetime \<Rightarrow> database \<Rightarrow> Mesh \<Rightarrow> (exn + Mesh) \<times> database" where
  "Mesh_save fl now db m =
     (let m0 = m\<lparr>verbose_id :=
                  replace (CHR '' '') (CHR ''_'')
                    (country m @ ''__'' @ state m @ ''__'' @ district m @ ''__'' @ Mesh_name m)\<rparr>
      in case Mesh_super_save now db m0 of
           (Inl e, db1) \<Rightarrow> (Inl e, db1)
         | (Inr m1, db1) \<Rightarrow>
             if thumbnail m1 \<noteq> ''''
             then (case lookup fst (thumbnail m1) (media db1) of
                     None \<Rightarrow> (Inl (FileNotFoundError (thumbnail m1)), db1)
                   | Some f \<Rightarrow>
                       (let img = exif_transpose (snd f)
                        in case thumbnail_size fl img of
                             Inl e \<Rightarrow> (Inl e, db1)
                           | Inr (new_width, new_height) \<Rightarrow>
                               (let resized_image =
                                      \<lparr>width = new_width, height = new_height, orientation = 0\<rparr>;
                                    db2 = db1\<lparr>media :=
                                            upsert fst (thumbnail m1, resized_image) (media db1)\<rparr>
                                in Mesh_super_save now db2 m1)))
             else (Inr m1, db1))"

subsection \<open>Contribution intake\<close>

text \<open>
  Modelled from the spec: the intake operation of section 4.6,
  \<^verbatim>\<open>intake(mesh, contributor, images) -> Contribution\<close>. models.py declares the
  tables it works on and the flags it reads (\<^verbatim>\<open>Mesh.completed\<close>, "Whether the mesh
  is accepting images any more"; \<^verbatim>\<open>Contributor.banned\<close>, "Implements email level
  banning"), but the operation itself is not in the file. The specification says:
  preconditions \<^verbatim>\<open>mesh.completed == false\<close> and \<^verbatim>\<open>contributor.banned == false\<close>;
  it fails with an IntakeRejected error, distinguishing "mesh closed" from
  "contributor banned", if either is violated, and no partial Contribution record is
  created on rejection; each accepted Image is assigned its path by \<open>set_image\<close>.
  The identifiers of the new rows come from the allocator and are parameters here.
\<close>

datatype intake_error = IntakeRejected_mesh_closed | IntakeRejected_contributor_banned

definition intake ::
  "datetime \<Rightarrow> uuid \<Rightarrow> database \<Rightarrow> Mesh \<Rightarrow> Contributor \<Rightarrow> (uuid \<times> string) list \<Rightarrow>
     (intake_error + Contribution) \<times> database" where
  "intake now new_ID db mesh contributor images =
     (if completed mesh then (Inl IntakeRejected_mesh_closed, db)
      else if banned contributor then (Inl IntakeRejected_contributor_banned, db)
      else
        let c = \<lparr>Contribution_ID = new_ID, Contribution_mesh = Mesh_ID mesh,
                 Contribution_contributor = Contributor_ID contributor,
                 contributed_at = Some now, processed = False, processed_at = None\<rparr>;
            rows = map (\<lambda>(i, filename).
                      \<lparr>Image_ID = i, Image_contribution = new_ID,
                       Image_image = os_path_join (''models/'' @ Mesh_ID mesh @ ''/images'')
                          (uuid_str i @ ''.'' @ lower (last (split (CHR ''.'') filename))),
                       Image_created_at = Some now, label = '''', remark = ''''\<rparr>) images
        in (Inr c, db\<lparr>Contribution_objects := upsert Contribution_ID c (Contribution_objects db),
                      Image_objects := Image_objects db @ rows\<rparr>))"

subsection \<open>Example instances\<close>

text \<open>The instances of the specification's example scenarios.\<close>

definition empty_db :: database where
  "empty_db =
     \<lparr>Mesh_objects = [], Contributor_objects = [], Contribution_objects = [],
      Image_objects = [], ARK_objects = [], Run_objects = [], Run_contributors = [],
      Run_images = [], media = []\<rparr>"

definition example_time :: datetime where
  "example_time = \<lparr>year = 2024, month = 3, day = 2, hour = 10, minute = 15, second = 0\<rparr>"

definition def_commit :: string where
  "def_commit =
     ''This ARK was generated & is managed by Project Tirtha (https://tirtha.niser.ac.in). '' @
     ''We are committed to maintaining this ARK as per our Terms of Use (https://tirtha.niser.ac.in/#terms) '' @
     ''and Privacy Policy (https://tirtha.niser.ac.in/#privacy).''"

definition example_ARK :: "string \<Rightarrow> string \<Rightarrow> ARK" where
  "example_ARK k sh =
     \<lparr>ark = k, naan = ''99999'', shoulder = sh, assigned_name = ''abc123'',
      ARK_created_at = None, url = ''https://tirtha.niser.ac.in/static/models/m.glb'',
      metadata = ''{}'', commitment = def_commit\<rparr>"

definition example_Mesh :: "string \<Rightarrow> string \<Rightarrow> string \<Rightarrow> Mesh" where
  "example_Mesh i n th =
     \<lparr>Mesh_ID = i, Mesh_name = n, description = ''Placeholder Text'',
      country = ''India'', state = ''Odisha'', district = ''Khordha'',
      preview = '''', thumbnail = th,
      verbose_id = ''<auto-generated using country, state & district>'',
      Mesh_status = ''Pending'', completed = False, hidden = False, center_image = '''',
      Mesh_rotaX = 0, Mesh_rotaY = 0, Mesh_rotaZ = 0, orientMesh = False, minObsAng = 30,
      denoise = False, Mesh_created_at = None, Mesh_updated_at = None,
      reconstructed_at = None\<rparr>"

definition example_Run :: "string \<Rightarrow> string \<Rightarrow> string \<Rightarrow> Run" where
  "example_Run i m st =
     \<lparr>Run_ID = i, Run_mesh = m, Run_ark = None, started_at = None, ended_at = None,
      directory = '''', Run_status = st, Run_rotaX = Some 0, Run_rotaY = Some 0,
      Run_rotaZ = Some 0\<rparr>"


definition example_db :: database where
  "example_db =
     empty_db\<lparr>Mesh_objects := [(example_Mesh ''M0000000000000001'' ''Lingaraj Temple'' '''')
                   \<lparr>Mesh_created_at := Some example_time, Mesh_updated_at := Some example_time,
                    verbose_id := ''India__Odisha__Khordha__Lingaraj_Temple''\<rparr>],
              Contribution_objects :=
                 [\<lparr>Contribution_ID = 0xC0, Contribution_mesh = ''M0000000000000001'',
                   Contribution_contributor = 0xC1, contributed_at = Some example_time,
                   processed = False, processed_at = None\<rparr>],
              ARK_objects := [(example_ARK ''99999/fk4abc123'' ''/fk4'')
                   \<lparr>ARK_created_at := Some example_time\<rparr>],
              Run_objects := [(example_Run ''R0000000000000001'' ''M0000000000000001'' ''Archived'')
                   \<lparr>Run_ark := Some ''99999/fk4abc123'', started_at := Some example_time,
                    directory := ''M0000000000000001/cache/2024-03-02-10-15-00__R0000000000000001''\<rparr>]\<rparr>"

definition example_Mesh_db :: database where
  "example_Mesh_db =
     empty_db\<lparr>Mesh_objects := [(example_Mesh ''M0000000000000001'' ''Lingaraj Temple'' '''')
                   \<lparr>Mesh_created_at := Some example_time, Mesh_updated_at := Some example_time,
                    verbose_id := ''India__Odisha__Khordha__Lingaraj_Temple''\<rparr>]\<rparr>"

definition example_thumbnail :: string where
  "example_thumbnail = ''models/M0000000000000002/M0000000000000002_thumb.png''"

definition example_media_db :: "int \<Rightarrow> int \<Rightarrow> database" where
  "example_media_db w h =
     empty_db\<lparr>media := [(example_thumbnail, \<lparr>width = w, height = h, orientation = 1\<rparr>)]\<rparr>"

definition example_Contributor :: "bool \<Rightarrow> Contributor" where
  "example_Contributor b =
     \<lparr>Contributor_ID = 0xC1, Contributor_name = ''A. Contributor'',
      email = ''contributor@example.org'', active = True,
      Contributor_created_at = Some example_time, Contributor_updated_at = Some example_time,
      banned = b, ban_reason = ''''\<rparr>"

section \<open>Properties\<close>

subsection \<open>Tables\<close>

lemma lookup_upsert_same: "lookup pk (pk r) (upsert pk r rows) = Some r"
  by (induction rows) (simp_all add: lookup_def)

subsection \<open>ARK validation on save\<close>




subsection \<open>Identifiers and strings\<close>













subsection \<open>Deleting a Run\<close>

lemma lookup_Some_key: "lookup pk k rows = Some r \<Longrightarrow> pk r = k"
  by (induction rows) (auto simp: lookup_def split: if_splits)

text \<open>
  Claim C2. The foreign key \<^verbatim>\<open>Run.ark\<close> is declared with the non-cascading rule
  \<^verbatim>\<open>DO_NOTHING\<close>, and deleting a Run that is bound to an ARK leaves the ARK table
  as it was: the bound ARK row is still found under its key, and it still prints as
  \<^verbatim>\<open>ark:/{ark}\<close>; the Run row itself is gone.
\<close>

theorem Run_delete_keeps_ARK:
  assumes "Run_ark r = Some k" and "lookup ark k (ARK_objects db) = Some a"
  shows "Run_ark_on_delete = DO_NOTHING \<and>
         ARK_objects (Run_delete db r) = ARK_objects db \<and>
         lookup ark k (ARK_objects (Run_delete db r)) = Some a \<and>
         ARK_str a = ''ark:/'' @ k \<and>
         lookup Run_ID (Run_ID r) (Run_objects (Run_delete db r)) = None"
proof -
  have 1: "ARK_objects (Run_delete db r) = ARK_objects db"
    by (simp add: Run_delete_def)
  have 2: "ark a = k" using assms(2) by (rule lookup_Some_key)
  have 3: "lookup Run_ID (Run_ID r) (Run_objects (Run_delete db r)) = None"
    by (simp add: Run_delete_def lookup_def find_None_iff)
  show ?thesis using 1 2 3 assms(2) by (simp add: Run_ark_on_delete_def ARK_str_def)
qed

text \<open>
  The archived example Run, bound to the ARK \<^verbatim>\<open>99999/fk4abc123\<close>, is deleted; the
  ARK stays.
\<close>

theorem Run_delete_keeps_ARK_witness:
  "map ark (ARK_objects (Run_delete example_db (hd (Run_objects example_db)))) = [''99999/fk4abc123''] \<and>
   Run_objects (Run_delete example_db (hd (Run_objects example_db))) = []"
proof -
  let ?r = "hd (Run_objects example_db)"
  let ?a = "hd (ARK_objects example_db)"
  have h1: "Run_ark ?r = Some ''99999/fk4abc123''"
    by (simp add: example_db_def example_Run_def empty_db_def)
  have h2: "lookup ark ''99999/fk4abc123'' (ARK_objects example_db) = Some ?a"
    by (simp add: example_db_def example_ARK_def empty_db_def lookup_def)
  have e: "ARK_objects (Run_delete example_db ?r) = ARK_objects example_db"
    using Run_delete_keeps_ARK [OF h1 h2] by simp
  have "map ark (ARK_objects example_db) = [''99999/fk4abc123'']"
    by (simp add: example_db_def example_ARK_def empty_db_def)
  moreover have "Run_objects (Run_delete example_db ?r) = []"
    by (simp add: Run_delete_def example_db_def empty_db_def)
  ultimately show ?thesis using e by simp
qed

subsection \<open>Upload paths\<close>



text \<open>
  Claim C10. For every Mesh whose ID is a non-empty string without the path separator
  (every generated short UUID is one), and every uploaded filename, the preview is
  stored as \<^verbatim>\<open>models/{MeshID}/{MeshID}_prev.png\<close> and the thumbnail as
  \<^verbatim>\<open>models/{MeshID}/{MeshID}_thumb.png\<close>: the filename of the caller does not occur
  in the result.
\<close>

theorem set_preview_thumbnail_path:
  assumes "Mesh_ID obj \<noteq> ''''" and "CHR ''/'' \<notin> set (Mesh_ID obj)"
  shows "set_preview obj filename = ''models/'' @ Mesh_ID obj @ ''/'' @ Mesh_ID obj @ ''_prev.png'' \<and>
         set_thumbnail obj filename = ''models/'' @ Mesh_ID obj @ ''/'' @ Mesh_ID obj @ ''_thumb.png''"
proof -
  obtain x xs where i: "Mesh_ID obj = x # xs" using assms(1) by (cases "Mesh_ID obj") auto
  have x: "x \<noteq> CHR ''/''" using assms(2) i by auto
  have l: "last (Mesh_ID obj) \<noteq> CHR ''/''" using assms by (metis last_in_set)
  have j: "os_path_join (''models/'' @ Mesh_ID obj) (Mesh_ID obj @ s) =
           ''models/'' @ Mesh_ID obj @ ''/'' @ Mesh_ID obj @ s" for s
    using x l assms(1) by (simp add: os_path_join_def startswith_def i)
  show ?thesis unfolding set_preview_def set_thumbnail_def Let_def j by simp
qed

theorem set_preview_thumbnail_path_witness:
  "set_preview (example_Mesh ''M0000000000000001'' ''Lingaraj Temple'' '''') ''photo.JPG'' =
     ''models/M0000000000000001/M0000000000000001_prev.png'' \<and>
   set_thumbnail (example_Mesh ''M0000000000000001'' ''Lingaraj Temple'' '''') ''photo.JPG'' =
     ''models/M0000000000000001/M0000000000000001_thumb.png''"
  using set_preview_thumbnail_path
    [of "example_Mesh ''M0000000000000001'' ''Lingaraj Temple'' ''''" "''photo.JPG''"]
  by (simp add: example_Mesh_def)
subsection \<open>Timestamps in decimal\<close>

declare decimal.simps [simp del]

lemma decimal_small: "n < 10 \<Longrightarrow> decimal n = [digit n]"
  by (subst decimal.simps) simp

lemma decimal_large: "10 \<le> n \<Longrightarrow> decimal n = decimal (n div 10) @ [digit (n mod 10)]"
  by (subst decimal.simps) simp

lemma digit_0: "digit 0 = CHR ''0''"
  by (simp add: digit_def)

lemma zero_pad_2: "n < 100 \<Longrightarrow> zero_pad 2 n = [digit (n div 10), digit (n mod 10)]"
proof (cases "n < 10")
  case True
  then show ?thesis by (simp add: zero_pad_def decimal_small digit_0)
next
  case False
  assume "n < 100"
  with False have "n div 10 < 10" "10 \<le> n" by simp_all
  then show ?thesis by (simp add: zero_pad_def decimal_large decimal_small)
qed

lemma zero_pad_4:
  assumes "1000 \<le> n" and "n \<le> 9999"
  shows "zero_pad 4 n =
           [digit (n div 1000), digit (n div 100 mod 10), digit (n div 10 mod 10), digit (n mod 10)]"
proof -
  have a: "10 \<le> n" "10 \<le> n div 10" "10 \<le> n div 10 div 10" "n div 10 div 10 div 10 < 10"
    using assms by simp_all
  have b: "n div 10 div 10 = n div 100" "n div 100 div 10 = n div 1000"
    by (simp_all add: div_mult2_eq [symmetric])
  have "decimal n = [digit (n div 1000), digit (n div 100 mod 10), digit (n div 10 mod 10), digit (n mod 10)]"
    using a by (simp add: decimal_large decimal_small b)
  then show ?thesis by (simp add: zero_pad_def)
qed

lemma strftime_digits:
  assumes "valid_datetime t"
  shows "strftime t =
    [digit (year t div 1000), digit (year t div 100 mod 10), digit (year t div 10 mod 10),
     digit (year t mod 10), CHR ''-'',
     digit (month t div 10), digit (month t mod 10), CHR ''-'',
     digit (day t div 10), digit (day t mod 10), CHR ''-'',
     digit (hour t div 10), digit (hour t mod 10), CHR ''-'',
     digit (minute t div 10), digit (minute t mod 10), CHR ''-'',
     digit (second t div 10), digit (second t mod 10)]"
proof -
  have y: "1000 \<le> year t" "year t \<le> 9999" using assms by (simp_all add: valid_datetime_def)
  have o: "month t < 100" "day t < 100" "hour t < 100" "minute t < 100" "second t < 100"
    using assms by (simp_all add: valid_datetime_def)
  show ?thesis
    by (simp add: strftime_def zero_pad_4 [OF y] zero_pad_2 [OF o(1)] zero_pad_2 [OF o(2)]
        zero_pad_2 [OF o(3)] zero_pad_2 [OF o(4)] zero_pad_2 [OF o(5)])
qed

lemma strftime_example: "strftime example_time = ''2024-03-02-10-15-00''"
proof -
  have "valid_datetime example_time" by (simp add: valid_datetime_def example_time_def)
  then show ?thesis by (simp add: strftime_digits example_time_def digit_def)
qed

subsection \<open>Saving a Run\<close>

lemma lookup_map:
  "(\<And>x. pk (f x) = pk x) \<Longrightarrow> lookup pk k (map f rows) = map_option f (lookup pk k rows)"
  by (induction rows) (simp_all add: lookup_def)

lemma Run_super_save_Inr:
  assumes "Run_super_save now db r = (Inr r1, db1)"
  shows "r1 = (if lookup Run_ID (Run_ID r) (Run_objects db) = None
               then r\<lparr>started_at := Some now\<rparr> else r)"
    and "started_at r1 \<noteq> None"
    and "lookup Mesh_ID (Run_mesh r) (Mesh_objects db) \<noteq> None"
    and "db1 = db\<lparr>Run_objects := upsert Run_ID r1 (Run_objects db)\<rparr>"
  using assms by (auto simp: Run_super_save_def Let_def split: if_splits)

lemma Run_super_save_stored:
  assumes "Run_super_save now db r = (Inr r1, db1)"
  shows "lookup Run_ID (Run_ID r) (Run_objects db1) = Some r1"
    and "Mesh_objects db1 = Mesh_objects db"
    and "Run_ID r1 = Run_ID r" and "Run_mesh r1 = Run_mesh r"
    and "Run_status r1 = Run_status r" and "Run_ark r1 = Run_ark r"
    and "directory r1 = directory r"
proof -
  note f = Run_super_save_Inr [OF assms]
  show i: "Run_ID r1 = Run_ID r" using f(1) by (simp split: if_splits)
  show "Run_mesh r1 = Run_mesh r" using f(1) by (simp split: if_splits)
  show "Run_status r1 = Run_status r" using f(1) by (simp split: if_splits)
  show "Run_ark r1 = Run_ark r" using f(1) by (simp split: if_splits)
  show "directory r1 = directory r" using f(1) by (simp split: if_splits)
  show "Mesh_objects db1 = Mesh_objects db" using f(4) by simp
  have "lookup Run_ID (Run_ID r1) (upsert Run_ID r1 (Run_objects db)) = Some r1"
    by (rule lookup_upsert_same)
  then show "lookup Run_ID (Run_ID r) (Run_objects db1) = Some r1"
    using f(4) i by simp
qed

lemma Run_super_save_directory_Inr:
  assumes "lookup Run_ID (Run_ID r) (Run_objects db) = Some row"
  shows "fst (Run_super_save_directory db r) = Inr r"
    and "lookup Run_ID (Run_ID r) (Run_objects (snd (Run_super_save_directory db r))) =
           Some (row\<lparr>directory := directory r\<rparr>)"
proof -
  let ?f = "\<lambda>x. if Run_ID x = Run_ID r then x\<lparr>directory := directory r\<rparr> else x"
  have k: "Run_ID row = Run_ID r" using assms by (rule lookup_Some_key)
  have p: "\<And>x. Run_ID (?f x) = Run_ID x" by simp
  have "lookup Run_ID (Run_ID r) (map ?f (Run_objects db)) =
        map_option ?f (lookup Run_ID (Run_ID r) (Run_objects db))"
    using p by (rule lookup_map)
  then show "lookup Run_ID (Run_ID r) (Run_objects (snd (Run_super_save_directory db r))) =
           Some (row\<lparr>directory := directory r\<rparr>)"
    using assms k by (simp add: Run_super_save_directory_def)
  show "fst (Run_super_save_directory db r) = Inr r"
    using assms by (simp add: Run_super_save_directory_def)
qed

lemma Run_save_Inl:
  "Run_super_save now db r = (Inl e, db1) \<Longrightarrow> Run_save now db r = (Inl e, db1)"
  by (simp add: Run_save_def)

lemma Run_save_Inr:
  assumes "Run_save now db r = (Inr r', db')"
  shows "\<exists>t m. started_at r' = Some t \<and>
           lookup Mesh_ID (Run_mesh r) (Mesh_objects db) = Some m \<and>
           directory r' =
             (if directory r = '''' then Mesh_ID m @ ''/cache/'' @ strftime t @ ''__'' @ Run_ID r
              else directory r) \<and>
           Run_ID r' = Run_ID r \<and> Run_mesh r' = Run_mesh r \<and>
           Run_status r' = Run_status r \<and> Run_ark r' = Run_ark r \<and>
           lookup Run_ID (Run_ID r) (Run_objects db') = Some r'"
proof -
  obtain res db1 where s: "Run_super_save now db r = (res, db1)"
    by (cases "Run_super_save now db r") auto
  have "\<exists>r1. res = Inr r1"
  proof (cases res)
    case (Inl e)
    with s assms show ?thesis using Run_save_Inl by fastforce
  next
    case (Inr r1)
    then show ?thesis by blast
  qed
  then obtain r1 where r1: "Run_super_save now db r = (Inr r1, db1)" using s by blast
  note f = Run_super_save_Inr [OF r1]
  note g = Run_super_save_stored [OF r1]
  obtain t where t: "started_at r1 = Some t" using f(2) by blast
  obtain m where m: "lookup Mesh_ID (Run_mesh r) (Mesh_objects db) = Some m" using f(3) by blast
  define r2 where "r2 =
    (if directory r1 = ''''
     then r1\<lparr>directory := Mesh_ID m @ ''/cache/'' @ strftime t @ ''__'' @ Run_ID r1\<rparr>
     else r1)"
  have e: "Run_save now db r = Run_super_save_directory db1 r2"
    using r1 t m g(2) g(4) by (simp add: Run_save_def r2_def)
  have i: "Run_ID r2 = Run_ID r" using g(3) by (simp add: r2_def)
  have l: "lookup Run_ID (Run_ID r2) (Run_objects db1) = Some r1"
    unfolding i by (rule g(1))
  note h = Run_super_save_directory_Inr [OF l]
  have "fst (Run_save now db r) = Inr r2" unfolding e by (rule h(1))
  then have r': "r' = r2" using assms by simp
  have db': "db' = snd (Run_super_save_directory db1 r2)"
    using assms e by (metis snd_conv)
  have st: "r1\<lparr>directory := directory r2\<rparr> = r2" by (simp add: r2_def)
  have lk: "lookup Run_ID (Run_ID r) (Run_objects db') = Some r'"
    using h(2) unfolding st i db' r' .
  have d: "directory r2 =
             (if directory r = '''' then Mesh_ID m @ ''/cache/'' @ strftime t @ ''__'' @ Run_ID r
              else directory r)"
    using g(3) g(7) by (simp add: r2_def)
  have o: "started_at r2 = Some t" "Run_mesh r2 = Run_mesh r" "Run_status r2 = Run_status r"
    "Run_ark r2 = Run_ark r"
    using t g(4) g(5) g(6) by (simp_all add: r2_def)
  show ?thesis
    unfolding r' using o m d i lk [unfolded r'] by blast
qed




text \<open>
  Claim C4. When \<^verbatim>\<open>Run.save\<close> derives the directory (the instance comes with an
  empty one), the result is \<^verbatim>\<open>{MeshID}/cache/{timestamp}__{RunID}\<close>: the ID of the Mesh
  row that the Run refers to, the Run's start timestamp through
  \<^verbatim>\<open>strftime('%Y-%m-%d-%H-%M-%S')\<close>, the Run's ID. For a timestamp with a four-digit
  year the timestamp part is \<^verbatim>\<open>YYYY-MM-DD-HH-MM-SS\<close>, every field zero-padded.
\<close>

theorem Run_save_directory_format:
  assumes "Run_save now db r = (Inr r', db')" and "directory r = ''''"
  shows "\<exists>t m. started_at r' = Some t \<and>
           lookup Mesh_ID (Run_mesh r') (Mesh_objects db) = Some m \<and>
           directory r' = Mesh_ID m @ ''/cache/'' @ strftime t @ ''__'' @ Run_ID r' \<and>
           Mesh_ID m = Run_mesh r' \<and>
           (valid_datetime t \<longrightarrow>
              strftime t =
                [digit (year t div 1000), digit (year t div 100 mod 10),
                 digit (year t div 10 mod 10), digit (year t mod 10), CHR ''-'',
                 digit (month t div 10), digit (month t mod 10), CHR ''-'',
                 digit (day t div 10), digit (day t mod 10), CHR ''-'',
                 digit (hour t div 10), digit (hour t mod 10), CHR ''-'',
                 digit (minute t div 10), digit (minute t mod 10), CHR ''-'',
                 digit (second t div 10), digit (second t mod 10)])"
proof -
  obtain t m where a: "started_at r' = Some t"
    and b: "lookup Mesh_ID (Run_mesh r) (Mesh_objects db) = Some m"
    and c: "directory r' =
      (if directory r = '''' then Mesh_ID m @ ''/cache/'' @ strftime t @ ''__'' @ Run_ID r
       else directory r)"
    and d: "Run_ID r' = Run_ID r" "Run_mesh r' = Run_mesh r"
    using Run_save_Inr [OF assms(1)] by blast
  have k: "Mesh_ID m = Run_mesh r" using b by (rule lookup_Some_key)
  show ?thesis
    using a b c d k assms(2) strftime_digits by auto
qed


text \<open>The example Run of the specification, saved for the first time.\<close>

lemma Run_save_example:
  "Run_save example_time example_Mesh_db (example_Run ''R0000000000000001'' ''M0000000000000001'' st) =
     (Inr ((example_Run ''R0000000000000001'' ''M0000000000000001'' st)
            \<lparr>started_at := Some example_time,
             directory := ''M0000000000000001/cache/2024-03-02-10-15-00__R0000000000000001''\<rparr>),
      example_Mesh_db\<lparr>Run_objects :=
        [(example_Run ''R0000000000000001'' ''M0000000000000001'' st)
            \<lparr>started_at := Some example_time,
             directory := ''M0000000000000001/cache/2024-03-02-10-15-00__R0000000000000001''\<rparr>]\<rparr>)"
  by (simp add: Run_save_def Run_super_save_def Run_super_save_directory_def example_Mesh_db_def
      empty_db_def example_Run_def example_Mesh_def lookup_def strftime_example Let_def)

text \<open>
  The example of the specification: started at 2024-03-02 10:15:00 with ID
  \<^verbatim>\<open>R0000000000000001\<close> on Mesh \<^verbatim>\<open>M0000000000000001\<close>.
\<close>

theorem Run_save_directory_format_witness:
  "\<exists>r' db' t. Run_save example_time example_Mesh_db
        (example_Run ''R0000000000000001'' ''M0000000000000001'' ''Processing'') = (Inr r', db') \<and>
      started_at r' = Some t \<and> valid_datetime t \<and>
      directory r' = ''M0000000000000001/cache/2024-03-02-10-15-00__R0000000000000001''"
proof -
  define r where "r = example_Run ''R0000000000000001'' ''M0000000000000001'' ''Processing''"
  define r' where "r' = r\<lparr>started_at := Some example_time,
    directory := ''M0000000000000001/cache/2024-03-02-10-15-00__R0000000000000001''\<rparr>"
  define db' where "db' = example_Mesh_db\<lparr>Run_objects := [r']\<rparr>"
  have s: "Run_save example_time example_Mesh_db r = (Inr r', db')"
    unfolding r_def r'_def db'_def by (rule Run_save_example)
  have d: "directory r = ''''" by (simp add: r_def example_Run_def)
  have "\<exists>t. started_at r' = Some t"
    using Run_save_directory_format [OF s d] by (elim exE conjE) (rule exI, assumption)
  then obtain t where t: "started_at r' = Some t" ..
  have e: "t = example_time" using t by (simp add: r'_def)
  have v: "valid_datetime t" unfolding e by (simp add: valid_datetime_def example_time_def)
  have "directory r' = ''M0000000000000001/cache/2024-03-02-10-15-00__R0000000000000001''"
    by (simp add: r'_def)
  then show ?thesis using s t v unfolding r_def by blast
qed



subsection \<open>Contribution intake\<close>

text \<open>
  Claim C7. An intake against a Mesh with \<^verbatim>\<open>completed=true\<close>, or by a Contributor
  with \<^verbatim>\<open>banned=true\<close>, fails with an IntakeRejected error, and the error names a
  precondition that is indeed violated: "mesh closed" only for a completed Mesh,
  "contributor banned" only for a banned Contributor. The database comes back as it
  was: no Contribution row is created.
\<close>

theorem intake_rejected:
  assumes "completed mesh \<or> banned contributor"
  shows "\<exists>e. fst (intake now new_ID db mesh contributor images) = Inl e \<and>
             (case e of IntakeRejected_mesh_closed \<Rightarrow> completed mesh
                      | IntakeRejected_contributor_banned \<Rightarrow> banned contributor) \<and>
             snd (intake now new_ID db mesh contributor images) = db \<and>
             Contribution_objects (snd (intake now new_ID db mesh contributor images)) =
               Contribution_objects db"
  using assms by (auto simp: intake_def)

text \<open>
  An intake on the completed example Mesh, and one by a banned Contributor: the example
  database keeps its one Contribution.
\<close>

theorem intake_rejected_witness:
  "fst (intake example_time 0xC2 example_db
          ((example_Mesh ''M0000000000000001'' ''Lingaraj Temple'' '''')\<lparr>completed := True\<rparr>)
          (example_Contributor False) [(0x1F, ''a.jpg'')]) = Inl IntakeRejected_mesh_closed \<and>
   snd (intake example_time 0xC2 example_db
          ((example_Mesh ''M0000000000000001'' ''Lingaraj Temple'' '''')\<lparr>completed := True\<rparr>)
          (example_Contributor False) [(0x1F, ''a.jpg'')]) = example_db \<and>
   fst (intake example_time 0xC2 example_db
          (example_Mesh ''M0000000000000001'' ''Lingaraj Temple'' '''')
          (example_Contributor True) [(0x1F, ''a.jpg'')]) = Inl IntakeRejected_contributor_banned \<and>
   map Contribution_ID (Contribution_objects (snd (intake example_time 0xC2 example_db
          (example_Mesh ''M0000000000000001'' ''Lingaraj Temple'' '''')
          (example_Contributor True) [(0x1F, ''a.jpg'')]))) = [0xC0]"
proof -
  define m where "m = example_Mesh ''M0000000000000001'' ''Lingaraj Temple'' ''''"
  define imgs :: "(uuid \<times> string) list" where "imgs = [(0x1F, ''a.jpg'')]"
  have a: "completed (m\<lparr>completed := True\<rparr>) \<or> banned (example_Contributor False)"
    by simp
  have b: "completed m \<or> banned (example_Contributor True)"
    by (simp add: example_Contributor_def)
  have nb: "\<not> banned (example_Contributor False)" "\<not> completed m"
    by (simp_all add: example_Contributor_def m_def example_Mesh_def)
  obtain e where e: "fst (intake example_time 0xC2 example_db (m\<lparr>completed := True\<rparr>)
        (example_Contributor False) imgs) = Inl e"
      "case e of IntakeRejected_mesh_closed \<Rightarrow> completed (m\<lparr>completed := True\<rparr>)
             | IntakeRejected_contributor_banned \<Rightarrow> banned (example_Contributor False)"
      "snd (intake example_time 0xC2 example_db (m\<lparr>completed := True\<rparr>)
        (example_Contributor False) imgs) = example_db"
    using intake_rejected [OF a, of example_time "0xC2" example_db imgs]
    by (elim exE conjE)
  have e1: "e = IntakeRejected_mesh_closed"
    using e(2) nb(1) by (cases e) simp_all
  obtain e' where e': "fst (intake example_time 0xC2 example_db m
        (example_Contributor True) imgs) = Inl e'"
      "case e' of IntakeRejected_mesh_closed \<Rightarrow> completed m
             | IntakeRejected_contributor_banned \<Rightarrow> banned (example_Contributor True)"
      "Contribution_objects (snd (intake example_time 0xC2 example_db m
        (example_Contributor True) imgs)) = Contribution_objects example_db"
    using intake_rejected [OF b, of example_time "0xC2" example_db imgs]
    by (elim exE conjE)
  have e2: "e' = IntakeRejected_contributor_banned"
    using e'(2) nb(2) by (cases e') simp_all
  have c: "map Contribution_ID (Contribution_objects example_db) = [0xC0]"
    by (simp add: example_db_def empty_db_def)
  show ?thesis
    using e(1,3) e'(1,3) c unfolding e1 e2 m_def imgs_def by simp
qed

subsection \<open>Saving a Mesh\<close>

text \<open>The base save of a Mesh: what a success and a failure say.\<close>

lemma Mesh_super_save_Inr:
  assumes "Mesh_super_save now db m = (Inr m1, db1)"
  shows "verbose_id m1 = verbose_id m" and "Mesh_ID m1 = Mesh_ID m"
    and "thumbnail m1 = thumbnail m"
    and "Mesh_created_at m1 \<noteq> None"
    and "find (\<lambda>x. Mesh_ID x \<noteq> Mesh_ID m \<and> verbose_id x = verbose_id m) (Mesh_objects db) = None"
    and "db1 = db\<lparr>Mesh_objects := upsert Mesh_ID m1 (Mesh_objects db)\<rparr>"
    and "lookup Mesh_ID (Mesh_ID m) (Mesh_objects db1) = Some m1"
proof -
  define m' where "m' = (if lookup Mesh_ID (Mesh_ID m) (Mesh_objects db) = None
                then m\<lparr>Mesh_created_at := Some now, Mesh_updated_at := Some now\<rparr>
                else m\<lparr>Mesh_updated_at := Some now\<rparr>)"
  have p: "verbose_id m' = verbose_id m" "Mesh_ID m' = Mesh_ID m" "thumbnail m' = thumbnail m"
    by (simp_all add: m'_def)
  have e: "Mesh_super_save now db m =
      (if Mesh_created_at m' = None
       then (Inl (IntegrityError ''NOT NULL constraint failed: created_at''), db)
       else if find (\<lambda>x. Mesh_ID x \<noteq> Mesh_ID m' \<and> verbose_id x = verbose_id m')
                 (Mesh_objects db) \<noteq> None
       then (Inl (IntegrityError ''UNIQUE constraint failed: verbose_id''), db)
       else (Inr m', db\<lparr>Mesh_objects := upsert Mesh_ID m' (Mesh_objects db)\<rparr>))"
    by (simp add: Mesh_super_save_def m'_def Let_def)
  have c: "Mesh_created_at m' \<noteq> None"
    using assms unfolding e by (auto split: if_splits)
  have u: "find (\<lambda>x. Mesh_ID x \<noteq> Mesh_ID m' \<and> verbose_id x = verbose_id m') (Mesh_objects db) = None"
    using assms unfolding e by (auto split: if_splits)
  have r: "m1 = m'" "db1 = db\<lparr>Mesh_objects := upsert Mesh_ID m' (Mesh_objects db)\<rparr>"
    using assms c u unfolding e by auto
  show "verbose_id m1 = verbose_id m" "Mesh_ID m1 = Mesh_ID m" "thumbnail m1 = thumbnail m"
    using p r(1) by simp_all
  show "Mesh_created_at m1 \<noteq> None" using c r(1) by simp
  show "find (\<lambda>x. Mesh_ID x \<noteq> Mesh_ID m \<and> verbose_id x = verbose_id m) (Mesh_objects db) = None"
    using u unfolding p .
  show "db1 = db\<lparr>Mesh_objects := upsert Mesh_ID m1 (Mesh_objects db)\<rparr>"
    using r by simp
  have "lookup Mesh_ID (Mesh_ID m') (upsert Mesh_ID m' (Mesh_objects db)) = Some m'"
    by (rule lookup_upsert_same)
  then show "lookup Mesh_ID (Mesh_ID m) (Mesh_objects db1) = Some m1"
    using r p by simp
qed

lemma Mesh_super_save_Inl:
  assumes "Mesh_super_save now db m = (Inl e, db1)"
  shows "db1 = db" and "is_IntegrityError e"
  using assms by (auto simp: Mesh_super_save_def Let_def split: if_splits)

lemma Mesh_super_save_collision:
  assumes "find (\<lambda>x. Mesh_ID x \<noteq> Mesh_ID m \<and> verbose_id x = verbose_id m) (Mesh_objects db) \<noteq> None"
    and "lookup Mesh_ID (Mesh_ID m) (Mesh_objects db) = None \<or> Mesh_created_at m \<noteq> None"
  shows "Mesh_super_save now db m =
           (Inl (IntegrityError ''UNIQUE constraint failed: verbose_id''), db)"
  using assms by (auto simp: Mesh_super_save_def Let_def)

lemma Mesh_super_save_media:
  "media (snd (Mesh_super_save now db m)) = media db"
  by (simp add: Mesh_super_save_def Let_def)

lemma Mesh_super_save_Mesh_objects_Inl:
  assumes "Mesh_super_save now db m = (Inl e, db1)"
  shows "Mesh_objects db1 = Mesh_objects db"
  using Mesh_super_save_Inl(1) [OF assms] by simp

text \<open>The paths through \<^verbatim>\<open>Mesh.save\<close>.\<close>

lemma Mesh_save_unfold:
  assumes "Mesh_save fl now db m = (res, db')"
  defines "m0 \<equiv> m\<lparr>verbose_id := replace (CHR '' '') (CHR ''_'')
             (country m @ ''__'' @ state m @ ''__'' @ district m @ ''__'' @ Mesh_name m)\<rparr>"
  shows "(\<exists>e. Mesh_super_save now db m0 = (Inl e, db) \<and> res = Inl e \<and> db' = db) \<or>
         (\<exists>m1 db1. Mesh_super_save now db m0 = (Inr m1, db1) \<and>
            (if thumbnail m = '''' then res = Inr m1 \<and> db' = db1
             else case lookup fst (thumbnail m) (media db) of
                    None \<Rightarrow> res = Inl (FileNotFoundError (thumbnail m)) \<and> db' = db1
                  | Some f \<Rightarrow>
                      (case thumbnail_size fl (exif_transpose (snd f)) of
                         Inl e \<Rightarrow> res = Inl e \<and> db' = db1
                       | Inr (w, h) \<Rightarrow>
                           Mesh_super_save now
                             (db1\<lparr>media := upsert fst
                                (thumbnail m, \<lparr>width = w, height = h, orientation = 0\<rparr>)
                                (media db)\<rparr>) m1 = (res, db'))))"
proof (cases "Mesh_super_save now db m0")
  case (Pair r1 db1)
  show ?thesis
  proof (cases r1)
    case (Inl e)
    have "db1 = db" using Pair Inl by (simp add: Mesh_super_save_Inl(1))
    moreover have "Mesh_save fl now db m = (Inl e, db1)"
      using Pair Inl unfolding Mesh_save_def Let_def m0_def by simp
    ultimately show ?thesis using assms(1) Pair Inl by simp
  next
    case (Inr m1)
    have s: "Mesh_super_save now db m0 = (Inr m1, db1)" using Pair Inr by simp
    have t: "thumbnail m1 = thumbnail m"
      using Mesh_super_save_Inr(3) [OF s] by (simp add: m0_def)
    have md: "media db1 = media db"
      using Mesh_super_save_media [of now db m0] s by simp
    have "Mesh_save fl now db m =
        (if thumbnail m1 \<noteq> ''''
         then (case lookup fst (thumbnail m1) (media db1) of
                 None \<Rightarrow> (Inl (FileNotFoundError (thumbnail m1)), db1)
               | Some f \<Rightarrow>
                   (case thumbnail_size fl (exif_transpose (snd f)) of
                      Inl e \<Rightarrow> (Inl e, db1)
                    | Inr (new_width, new_height) \<Rightarrow>
                        Mesh_super_save now
                          (db1\<lparr>media := upsert fst
                             (thumbnail m1, \<lparr>width = new_width, height = new_height, orientation = 0\<rparr>)
                             (media db1)\<rparr>) m1))
         else (Inr m1, db1))"
      using s unfolding Mesh_save_def Let_def m0_def by simp
    then show ?thesis
      using assms(1) s unfolding t md
      by (auto split: option.splits sum.splits prod.splits)
  qed
qed

lemma Mesh_save_cases:
  assumes "Mesh_save fl now db m = (res, db')"
  defines "m0 \<equiv> m\<lparr>verbose_id := replace (CHR '' '') (CHR ''_'')
             (country m @ ''__'' @ state m @ ''__'' @ district m @ ''__'' @ Mesh_name m)\<rparr>"
  obtains
    (rejected) e where "Mesh_super_save now db m0 = (Inl e, db)" "res = Inl e" "db' = db"
  | (plain) m1 where "Mesh_super_save now db m0 = (Inr m1, db')" "thumbnail m = ''''"
      "res = Inr m1"
  | (failed) m1 e where "Mesh_super_save now db m0 = (Inr m1, db')" "thumbnail m \<noteq> ''''"
      "res = Inl e"
  | (resized) m1 db1 f w h where "Mesh_super_save now db m0 = (Inr m1, db1)"
      "thumbnail m \<noteq> ''''" "lookup fst (thumbnail m) (media db) = Some f"
      "thumbnail_size fl (exif_transpose (snd f)) = Inr (w, h)"
      "Mesh_super_save now
         (db1\<lparr>media := upsert fst (thumbnail m, \<lparr>width = w, height = h, orientation = 0\<rparr>)
            (media db)\<rparr>) m1 = (res, db')"
proof -
  note u = Mesh_save_unfold [OF assms(1), folded m0_def]
  show thesis using u
  proof (elim disjE exE conjE)
    fix e assume "Mesh_super_save now db m0 = (Inl e, db)" "res = Inl e" "db' = db"
    then show thesis by (rule rejected)
  next
    fix m1 db1
    assume s: "Mesh_super_save now db m0 = (Inr m1, db1)"
      and c: "if thumbnail m = '''' then res = Inr m1 \<and> db' = db1
         else case lookup fst (thumbnail m) (media db) of
                None \<Rightarrow> res = Inl (FileNotFoundError (thumbnail m)) \<and> db' = db1
              | Some f \<Rightarrow>
                  (case thumbnail_size fl (exif_transpose (snd f)) of
                     Inl e \<Rightarrow> res = Inl e \<and> db' = db1
                   | Inr (w, h) \<Rightarrow>
                       Mesh_super_save now
                         (db1\<lparr>media := upsert fst
                            (thumbnail m, \<lparr>width = w, height = h, orientation = 0\<rparr>)
                            (media db)\<rparr>) m1 = (res, db'))"
    show thesis
    proof (cases "thumbnail m = ''''")
      case True
      then have "res = Inr m1" "db' = db1" using c by simp_all
      then show thesis using plain [of m1] s True by simp
    next
      case False
      note t = False
      show thesis
      proof (cases "lookup fst (thumbnail m) (media db)")
        case None
        then have "res = Inl (FileNotFoundError (thumbnail m))" "db' = db1"
          using c t by simp_all
        then show thesis using failed [of m1] s t by simp
      next
        case (Some f)
        note l = Some
        show thesis
        proof (cases "thumbnail_size fl (exif_transpose (snd f))")
          case (Inl e)
          then have "res = Inl e" "db' = db1" using c t l by simp_all
          then show thesis using failed [of m1] s t by simp
        next
          case (Inr wh)
          obtain w h where wh: "wh = (w, h)" by (cases wh)
          have z: "thumbnail_size fl (exif_transpose (snd f)) = Inr (w, h)"
            using Inr wh by simp
          have "Mesh_super_save now
                  (db1\<lparr>media := upsert fst
                     (thumbnail m, \<lparr>width = w, height = h, orientation = 0\<rparr>)
                     (media db)\<rparr>) m1 = (res, db')"
            using c t l z by simp
          then show thesis using resized [OF s t l z] by simp
        qed
      qed
    qed
  qed
qed

text \<open>
  Claim C5. \<^verbatim>\<open>Mesh.save\<close> recomputes \<^verbatim>\<open>verbose_id\<close> as
  \<^verbatim>\<open>country__state__district__name\<close> with every space replaced by an underscore,
  whatever the instance carried in that field and whichever fields changed: a successful
  save returns and stores the row with that slug, and a save either leaves the database
  untouched or leaves the row stored with that slug. When another Mesh row (another ID)
  already has the slug as its \<^verbatim>\<open>verbose_id\<close>, the save fails with an
  \<^verbatim>\<open>IntegrityError\<close> and the database is unchanged; the error is the violation of the
  unique constraint of \<^verbatim>\<open>verbose_id\<close> whenever the row is new or the instance carries
  its creation timestamp.
\<close>

theorem Mesh_save_verbose_id:
  "let slug = replace (CHR '' '') (CHR ''_'')
                (country m @ ''__'' @ state m @ ''__'' @ district m @ ''__'' @ Mesh_name m);
       res = Mesh_save fl now db m
   in (\<forall>m'. fst res = Inr m' \<longrightarrow>
          verbose_id m' = slug \<and>
          lookup Mesh_ID (Mesh_ID m) (Mesh_objects (snd res)) = Some m') \<and>
      (snd res = db \<or>
       (\<exists>row. lookup Mesh_ID (Mesh_ID m) (Mesh_objects (snd res)) = Some row \<and>
              verbose_id row = slug)) \<and>
      (find (\<lambda>x. Mesh_ID x \<noteq> Mesh_ID m \<and> verbose_id x = slug) (Mesh_objects db) \<noteq> None \<longrightarrow>
         raises is_IntegrityError (fst res) \<and> snd res = db \<and>
         (lookup Mesh_ID (Mesh_ID m) (Mesh_objects db) = None \<or> Mesh_created_at m \<noteq> None \<longrightarrow>
            fst res = Inl (IntegrityError ''UNIQUE constraint failed: verbose_id'')))"
proof -
  define slug where "slug = replace (CHR '' '') (CHR ''_'')
                (country m @ ''__'' @ state m @ ''__'' @ district m @ ''__'' @ Mesh_name m)"
  define m0 where "m0 = m\<lparr>verbose_id := slug\<rparr>"
  define res where "res = fst (Mesh_save fl now db m)"
  define db' where "db' = snd (Mesh_save fl now db m)"
  have r: "Mesh_save fl now db m = (res, db')" by (simp add: res_def db'_def)
  have p: "verbose_id m0 = slug" "Mesh_ID m0 = Mesh_ID m" "Mesh_created_at m0 = Mesh_created_at m"
    by (simp_all add: m0_def)
  note cases = Mesh_save_cases [OF r, folded slug_def, folded m0_def]
  have A: "verbose_id m' = slug \<and> lookup Mesh_ID (Mesh_ID m) (Mesh_objects db') = Some m'"
    if i: "res = Inr m'" for m'
  proof (rule cases)
    fix e assume "res = Inl e" then show ?thesis using i by simp
  next
    fix m1 assume s: "Mesh_super_save now db m0 = (Inr m1, db')" and "res = Inr m1"
    then show ?thesis using Mesh_super_save_Inr(1,7) [OF s, unfolded p] i by simp
  next
    fix m1 e assume "res = Inl e" then show ?thesis using i by simp
  next
    fix m1 db1 f w h
    assume s: "Mesh_super_save now db m0 = (Inr m1, db1)"
      and s2: "Mesh_super_save now
         (db1\<lparr>media := upsert fst (thumbnail m, \<lparr>width = w, height = h, orientation = 0\<rparr>)
            (media db)\<rparr>) m1 = (res, db')"
    note s1 = Mesh_super_save_Inr(1,2) [OF s, unfolded p]
    from Mesh_super_save_Inr(1,7) [OF s2 [unfolded i]] show ?thesis using s1 by simp
  qed
  have B: "db' = db \<or> (\<exists>row. lookup Mesh_ID (Mesh_ID m) (Mesh_objects db') = Some row \<and>
              verbose_id row = slug)"
  proof (rule cases)
    fix e assume "db' = db" then show ?thesis by simp
  next
    fix m1 assume s: "Mesh_super_save now db m0 = (Inr m1, db')"
    show ?thesis using Mesh_super_save_Inr(1,7) [OF s, unfolded p] by simp
  next
    fix m1 e assume s: "Mesh_super_save now db m0 = (Inr m1, db')"
    show ?thesis using Mesh_super_save_Inr(1,7) [OF s, unfolded p] by simp
  next
    fix m1 db1 f w h
    assume s: "Mesh_super_save now db m0 = (Inr m1, db1)"
      and s2: "Mesh_super_save now
         (db1\<lparr>media := upsert fst (thumbnail m, \<lparr>width = w, height = h, orientation = 0\<rparr>)
            (media db)\<rparr>) m1 = (res, db')"
    note s1 = Mesh_super_save_Inr(1,7) [OF s, unfolded p]
    show ?thesis
    proof (cases res)
      case (Inl e)
      have "Mesh_objects db' = Mesh_objects db1"
        using Mesh_super_save_Mesh_objects_Inl [OF s2 [unfolded Inl]] by simp
      then show ?thesis using s1 by simp
    next
      case (Inr m2)
      then show ?thesis using A by simp
    qed
  qed
  have C: "raises is_IntegrityError res \<and> db' = db \<and>
         (lookup Mesh_ID (Mesh_ID m) (Mesh_objects db) = None \<or> Mesh_created_at m \<noteq> None \<longrightarrow>
            res = Inl (IntegrityError ''UNIQUE constraint failed: verbose_id''))"
    if f: "find (\<lambda>x. Mesh_ID x \<noteq> Mesh_ID m \<and> verbose_id x = slug) (Mesh_objects db) \<noteq> None"
  proof -
    have n: "Mesh_super_save now db m0 \<noteq> (Inr m1, db1)" for m1 db1
      using Mesh_super_save_Inr(5) [of now db m0 m1 db1, unfolded p] f by auto
    show ?thesis
    proof (rule cases)
      fix e assume s: "Mesh_super_save now db m0 = (Inl e, db)" and e: "res = Inl e"
        and d: "db' = db"
      have "is_IntegrityError e" using Mesh_super_save_Inl(2) [OF s] .
      moreover have "e = IntegrityError ''UNIQUE constraint failed: verbose_id''"
        if "lookup Mesh_ID (Mesh_ID m) (Mesh_objects db) = None \<or> Mesh_created_at m \<noteq> None"
        using Mesh_super_save_collision [of m0 db now, unfolded p, OF f that] s by simp
      ultimately show ?thesis using e d by simp
    next
      fix m1 assume "Mesh_super_save now db m0 = (Inr m1, db')"
      then show ?thesis using n by simp
    next
      fix m1 e assume "Mesh_super_save now db m0 = (Inr m1, db')"
      then show ?thesis using n by simp
    next
      fix m1 db1 f w h assume "Mesh_super_save now db m0 = (Inr m1, db1)"
      then show ?thesis using n by simp
    qed
  qed
  have A': "\<forall>m'. res = Inr m' \<longrightarrow>
          verbose_id m' = slug \<and> lookup Mesh_ID (Mesh_ID m) (Mesh_objects db') = Some m'"
  proof (intro allI impI)
    fix m' assume "res = Inr m'"
    then show "verbose_id m' = slug \<and> lookup Mesh_ID (Mesh_ID m) (Mesh_objects db') = Some m'"
      by (rule A)
  qed
  have C': "find (\<lambda>x. Mesh_ID x \<noteq> Mesh_ID m \<and> verbose_id x = slug) (Mesh_objects db) \<noteq> None \<longrightarrow>
         raises is_IntegrityError res \<and> db' = db \<and>
         (lookup Mesh_ID (Mesh_ID m) (Mesh_objects db) = None \<or> Mesh_created_at m \<noteq> None \<longrightarrow>
            res = Inl (IntegrityError ''UNIQUE constraint failed: verbose_id''))"
  proof (rule impI)
    assume "find (\<lambda>x. Mesh_ID x \<noteq> Mesh_ID m \<and> verbose_id x = slug) (Mesh_objects db) \<noteq> None"
    then show "raises is_IntegrityError res \<and> db' = db \<and>
         (lookup Mesh_ID (Mesh_ID m) (Mesh_objects db) = None \<or> Mesh_created_at m \<noteq> None \<longrightarrow>
            res = Inl (IntegrityError ''UNIQUE constraint failed: verbose_id''))"
      by (rule C)
  qed
  note all = conjI [OF A' conjI [OF B C']]
  show ?thesis
    using all unfolding Let_def slug_def res_def db'_def .
qed

text \<open>
  The example of the specification: India, Odisha, Khordha, "Lingaraj Temple", first
  saved to an empty database, then saved under a second ID beside the first.
\<close>

lemma example_slug:
  "replace (CHR '' '') (CHR ''_'')
     (country (example_Mesh i ''Lingaraj Temple'' th) @ ''__'' @
      state (example_Mesh i ''Lingaraj Temple'' th) @ ''__'' @
      district (example_Mesh i ''Lingaraj Temple'' th) @ ''__'' @
      Mesh_name (example_Mesh i ''Lingaraj Temple'' th)) =
   ''India__Odisha__Khordha__Lingaraj_Temple''"
  by (simp add: example_Mesh_def replace_def)

lemma Mesh_save_example:
  "fst (Mesh_save fl example_time empty_db
          (example_Mesh ''M0000000000000001'' ''Lingaraj Temple'' '''')) =
   Inr ((example_Mesh ''M0000000000000001'' ''Lingaraj Temple'' '''')
          \<lparr>verbose_id := ''India__Odisha__Khordha__Lingaraj_Temple'',
           Mesh_created_at := Some example_time, Mesh_updated_at := Some example_time\<rparr>)"
  unfolding Mesh_save_def Let_def example_slug
  by (simp add: Mesh_super_save_def Let_def empty_db_def lookup_def example_Mesh_def)

theorem Mesh_save_verbose_id_witness:
  "(\<exists>m'. fst (Mesh_save exact_float example_time empty_db
              (example_Mesh ''M0000000000000001'' ''Lingaraj Temple'' '''')) = Inr m' \<and>
         verbose_id m' = ''India__Odisha__Khordha__Lingaraj_Temple'') \<and>
   map verbose_id (Mesh_objects example_Mesh_db) = [''India__Odisha__Khordha__Lingaraj_Temple''] \<and>
   fst (Mesh_save exact_float example_time example_Mesh_db
          (example_Mesh ''M0000000000000002'' ''Lingaraj Temple'' '''')) =
     Inl (IntegrityError ''UNIQUE constraint failed: verbose_id'') \<and>
   snd (Mesh_save exact_float example_time example_Mesh_db
          (example_Mesh ''M0000000000000002'' ''Lingaraj Temple'' '''')) = example_Mesh_db"
proof -
  define m where "m = example_Mesh ''M0000000000000001'' ''Lingaraj Temple'' ''''"
  define m2 where "m2 = example_Mesh ''M0000000000000002'' ''Lingaraj Temple'' ''''"
  define slug where "slug = ''India__Odisha__Khordha__Lingaraj_Temple''"
  obtain m' where s: "fst (Mesh_save exact_float example_time empty_db m) = Inr m'"
    unfolding m_def Mesh_save_example by simp
  note th = Mesh_save_verbose_id [where m = m and fl = exact_float and now = example_time
      and db = empty_db, unfolded Let_def, unfolded m_def example_slug, folded m_def slug_def]
  have "verbose_id m' = slug" using th s by simp
  then have A: "\<exists>m'. fst (Mesh_save exact_float example_time empty_db m) = Inr m' \<and>
      verbose_id m' = slug"
    using s by (intro exI conjI)
  have i2: "Mesh_ID m2 = ''M0000000000000002''" by (simp add: m2_def example_Mesh_def)
  have B: "map verbose_id (Mesh_objects example_Mesh_db) = [slug]"
    by (simp add: example_Mesh_db_def empty_db_def slug_def)
  have f: "find (\<lambda>x. Mesh_ID x \<noteq> Mesh_ID m2 \<and> verbose_id x = slug)
             (Mesh_objects example_Mesh_db) \<noteq> None"
    unfolding i2 by (simp add: example_Mesh_db_def empty_db_def example_Mesh_def slug_def)
  have l: "lookup Mesh_ID (Mesh_ID m2) (Mesh_objects example_Mesh_db) = None"
    unfolding i2 by (simp add: example_Mesh_db_def empty_db_def example_Mesh_def lookup_def)
  note th2 = Mesh_save_verbose_id [where m = m2 and fl = exact_float and now = example_time
      and db = example_Mesh_db, unfolded Let_def, unfolded m2_def example_slug,
      folded m2_def slug_def]
  have C: "fst (Mesh_save exact_float example_time example_Mesh_db m2) =
             Inl (IntegrityError ''UNIQUE constraint failed: verbose_id'') \<and>
           snd (Mesh_save exact_float example_time example_Mesh_db m2) = example_Mesh_db"
    using th2 f l by simp
  show ?thesis
    using A B C unfolding m_def m2_def slug_def by (intro conjI) simp_all
qed

text \<open>The thumbnail of a saved Mesh.\<close>

lemma thumbnail_size_Inr:
  assumes "thumbnail_size fl img = Inr (w, h)"
  shows "if 400 \<le> width img \<and> 400 \<le> height img
         then if gt_one fl (truediv fl (width img) (height img))
              then (\<exists>x. int_mul fl 400 (truediv fl (width img) (height img)) = Inr x \<and>
                        w = max 400 x) \<and> h = 400
              else w = 400 \<and>
                   (\<exists>y. int_div fl 400 (truediv fl (width img) (height img)) = Inr y \<and>
                        h = max 400 y)
         else w = width img \<and> h = height img"
  using assms by (auto simp: thumbnail_size_def Let_def split: if_splits sum.splits)

text \<open>
  Claim C8, as amended. A successful save of a Mesh with a thumbnail reads the stored
  picture, applies the EXIF orientation, and writes a picture back under the same path.
  When both dimensions are at least 400 pixels the shorter dimension of the result is
  400: a landscape picture (aspect ratio above 1) gets height 400 and width
  \<^verbatim>\<open>max(400, int(400 * ratio))\<close>, any other picture gets width 400 and height
  \<^verbatim>\<open>max(400, int(400 / ratio))\<close>. When either dimension is below 400 pixels the
  picture keeps its size. This holds for every floating-point arithmetic \<open>fl\<close>.
\<close>

theorem Mesh_save_thumbnail_size:
  assumes "Mesh_save fl now db m = (Inr m', db')" and "thumbnail m \<noteq> ''''"
  shows "\<exists>f p. lookup fst (thumbnail m) (media db) = Some f \<and>
               lookup fst (thumbnail m) (media db') = Some (thumbnail m, p) \<and>
               (let img = exif_transpose (snd f);
                    aspect_ratio = truediv fl (width img) (height img)
                in if 400 \<le> width img \<and> 400 \<le> height img
                   then min (width p) (height p) = 400 \<and>
                        (if gt_one fl aspect_ratio
                         then (\<exists>x. int_mul fl 400 aspect_ratio = Inr x \<and> width p = max 400 x) \<and>
                              height p = 400
                         else width p = 400 \<and>
                              (\<exists>y. int_div fl 400 aspect_ratio = Inr y \<and> height p = max 400 y))
                   else width p = width img \<and> height p = height img)"
proof (rule Mesh_save_cases [OF assms(1)])
  fix e assume "Inr m' = Inl e" then show ?thesis by simp
next
  fix m1 assume "thumbnail m = ''''" then show ?thesis using assms(2) by simp
next
  fix m1 e assume "Inr m' = Inl e" then show ?thesis by simp
next
  fix m1 db1 f w h
  assume f: "lookup fst (thumbnail m) (media db) = Some f"
    and t: "thumbnail_size fl (exif_transpose (snd f)) = Inr (w, h)"
    and s: "Mesh_super_save now
              (db1\<lparr>media := upsert fst
                 (thumbnail m, \<lparr>width = w, height = h, orientation = 0\<rparr>) (media db)\<rparr>) m1 =
            (Inr m', db')"
  define p where "p = \<lparr>width = w, height = h, orientation = 0\<rparr>"
  define db2 where "db2 = db1\<lparr>media := upsert fst (thumbnail m, p) (media db)\<rparr>"
  have s': "Mesh_super_save now db2 m1 = (Inr m', db')"
    using s unfolding db2_def p_def .
  have "media db' = media db2"
    using Mesh_super_save_media [of now db2 m1] unfolding s' by simp
  then have "media db' = upsert fst (thumbnail m, p) (media db)"
    by (simp add: db2_def)
  then have l: "lookup fst (thumbnail m) (media db') = Some (thumbnail m, p)"
    using lookup_upsert_same [of fst "(thumbnail m, p)" "media db"] by simp
  have wh: "width p = w" "height p = h" by (simp_all add: p_def)
  define img where "img = exif_transpose (snd f)"
  define r where "r = truediv fl (width img) (height img)"
  note ts = thumbnail_size_Inr [OF t, folded img_def, folded r_def]
  have g: "if 400 \<le> width img \<and> 400 \<le> height img
           then min (width p) (height p) = 400 \<and>
                (if gt_one fl r
                 then (\<exists>x. int_mul fl 400 r = Inr x \<and> width p = max 400 x) \<and>
                      height p = 400
                 else width p = 400 \<and>
                      (\<exists>y. int_div fl 400 r = Inr y \<and> height p = max 400 y))
           else width p = width img \<and> height p = height img"
  proof (cases "400 \<le> width img \<and> 400 \<le> height img")
    case False
    show ?thesis using ts unfolding wh by (simp only: False if_False)
  next
    case True
    note big = True
    show ?thesis
    proof (cases "gt_one fl r")
      case True
      then obtain x where x: "int_mul fl 400 r = Inr x" "w = max 400 x" "h = 400"
        using ts big by auto
      have "min w h = 400" unfolding x(2,3) by simp
      then show ?thesis using big True x unfolding wh by simp
    next
      case False
      then obtain y where y: "int_div fl 400 r = Inr y" "h = max 400 y" "w = 400"
        using ts big by auto
      have "min w h = 400" unfolding y(2,3) by simp
      then show ?thesis using big False y unfolding wh by simp
    qed
  qed
  have "let img = exif_transpose (snd f);
            aspect_ratio = truediv fl (width img) (height img)
        in if 400 \<le> width img \<and> 400 \<le> height img
           then min (width p) (height p) = 400 \<and>
                (if gt_one fl aspect_ratio
                 then (\<exists>x. int_mul fl 400 aspect_ratio = Inr x \<and> width p = max 400 x) \<and>
                      height p = 400
                 else width p = 400 \<and>
                      (\<exists>y. int_div fl 400 aspect_ratio = Inr y \<and> height p = max 400 y))
           else width p = width img \<and> height p = height img"
    using g unfolding Let_def r_def img_def .
  with f l show ?thesis by (intro exI conjI)
qed

text \<open>The example Mesh saved with a thumbnail of \<open>w\<close> by \<open>h\<close> pixels.\<close>

lemma Mesh_save_example_thumbnail:
  assumes "thumbnail_size exact_float \<lparr>width = w, height = h, orientation = 0\<rparr> = Inr (w', h')"
  shows "succeeds (fst (Mesh_save exact_float example_time (example_media_db w h)
             (example_Mesh ''M0000000000000002'' ''Sun Temple'' example_thumbnail))) \<and>
         media (snd (Mesh_save exact_float example_time (example_media_db w h)
             (example_Mesh ''M0000000000000002'' ''Sun Temple'' example_thumbnail))) =
           [(example_thumbnail, \<lparr>width = w', height = h', orientation = 0\<rparr>)]"
proof -
  define m where "m = example_Mesh ''M0000000000000002'' ''Sun Temple'' example_thumbnail"
  define m0 where "m0 = m\<lparr>verbose_id := replace (CHR '' '') (CHR ''_'')
             (country m @ ''__'' @ state m @ ''__'' @ district m @ ''__'' @ Mesh_name m)\<rparr>"
  define m1 where "m1 = m0\<lparr>Mesh_created_at := Some example_time,
     Mesh_updated_at := Some example_time\<rparr>"
  define db where "db = example_media_db w h"
  define db1 where "db1 = db\<lparr>Mesh_objects := [m1]\<rparr>"
  define p where "p = \<lparr>width = w', height = h', orientation = 0\<rparr>"
  define db2 where "db2 = db1\<lparr>media := [(example_thumbnail, p)]\<rparr>"
  have t: "thumbnail m1 = example_thumbnail" "thumbnail m1 \<noteq> ''''"
    by (simp_all add: m1_def m0_def m_def example_Mesh_def example_thumbnail_def)
  have s1: "Mesh_super_save example_time db m0 = (Inr m1, db1)"
    by (simp add: Mesh_super_save_def Let_def db_def db1_def m1_def example_media_db_def
        empty_db_def lookup_def)
  have md: "media db1 = [(example_thumbnail, \<lparr>width = w, height = h, orientation = 1\<rparr>)]"
    by (simp add: db1_def db_def example_media_db_def empty_db_def)
  have lk: "lookup fst (thumbnail m1) (media db1) =
      Some (example_thumbnail, \<lparr>width = w, height = h, orientation = 1\<rparr>)"
    unfolding md t(1) by (simp add: lookup_def)
  have ex: "exif_transpose \<lparr>width = w, height = h, orientation = 1\<rparr> =
      \<lparr>width = w, height = h, orientation = 0\<rparr>"
    by (simp add: exif_transpose_def)
  have up: "db1\<lparr>media := upsert fst (thumbnail m1, p) (media db1)\<rparr> = db2"
    unfolding md t(1) by (simp add: db2_def)
  have s2: "Mesh_super_save example_time db2 m1 =
      (Inr (m1\<lparr>Mesh_updated_at := Some example_time\<rparr>), db2)"
    by (simp add: Mesh_super_save_def Let_def db2_def db1_def db_def m1_def
        example_media_db_def empty_db_def lookup_def)
  have "Mesh_save exact_float example_time db m =
      (Inr (m1\<lparr>Mesh_updated_at := Some example_time\<rparr>), db2)"
    unfolding Mesh_save_def Let_def m0_def [symmetric] s1
    using t(2) by (simp add: lk ex [unfolded One_nat_def] assms up [unfolded p_def] s2 p_def)
  then show ?thesis
    unfolding m_def db_def by (simp add: db2_def p_def)
qed

text \<open>
  Claim C8 as stated fails: a thumbnail of 1000 by 300 pixels does not have both
  dimensions below 400, yet the save leaves it at 1000 by 300: its shorter side is 300
  afterwards, not 400.
\<close>

theorem Mesh_save_thumbnail_counterexample:
  "succeeds (fst (Mesh_save exact_float example_time (example_media_db 1000 300)
       (example_Mesh ''M0000000000000002'' ''Sun Temple'' example_thumbnail))) \<and>
   media (snd (Mesh_save exact_float example_time (example_media_db 1000 300)
       (example_Mesh ''M0000000000000002'' ''Sun Temple'' example_thumbnail))) =
     [(example_thumbnail, \<lparr>width = 1000, height = 300, orientation = 0\<rparr>)]"
  by (rule Mesh_save_example_thumbnail) (simp add: thumbnail_size_def)

text \<open>A landscape thumbnail of 1200 by 800 pixels becomes 600 by 400.\<close>

lemma thumbnail_size_example:
  "thumbnail_size exact_float \<lparr>width = 1200, height = 800, orientation = 0\<rparr> = Inr (600, 400)"
  by (simp add: thumbnail_size_def exact_float_def trunc_def Let_def)

theorem Mesh_save_thumbnail_size_witness:
  "\<exists>m' db' p. Mesh_save exact_float example_time (example_media_db 1200 800)
        (example_Mesh ''M0000000000000002'' ''Sun Temple'' example_thumbnail) = (Inr m', db') \<and>
      lookup fst example_thumbnail (media db') = Some (example_thumbnail, p) \<and>
      width p = 600 \<and> height p = 400"
proof -
  define m where "m = example_Mesh ''M0000000000000002'' ''Sun Temple'' example_thumbnail"
  define db where "db = example_media_db 1200 800"
  have t: "thumbnail m = example_thumbnail" by (simp add: m_def example_Mesh_def)
  have n: "thumbnail m \<noteq> ''''" unfolding t by (simp add: example_thumbnail_def)
  have "succeeds (fst (Mesh_save exact_float example_time db m))"
    using Mesh_save_example_thumbnail [OF thumbnail_size_example] unfolding m_def db_def
    by (rule conjunct1)
  then obtain m' db' where s: "Mesh_save exact_float example_time db m = (Inr m', db')"
    by (cases "Mesh_save exact_float example_time db m"; cases "fst (Mesh_save exact_float example_time db m)") simp_all
  obtain f p where f: "lookup fst example_thumbnail (media db) = Some f"
    and l: "lookup fst example_thumbnail (media db') = Some (example_thumbnail, p)"
    and g: "let img = exif_transpose (snd f);
                aspect_ratio = truediv exact_float (width img) (height img)
            in if 400 \<le> width img \<and> 400 \<le> height img
               then min (width p) (height p) = 400 \<and>
                    (if gt_one exact_float aspect_ratio
                     then (\<exists>x. int_mul exact_float 400 aspect_ratio = Inr x \<and>
                               width p = max 400 x) \<and> height p = 400
                     else width p = 400 \<and>
                          (\<exists>y. int_div exact_float 400 aspect_ratio = Inr y \<and>
                               height p = max 400 y))
               else width p = width img \<and> height p = height img"
    using Mesh_save_thumbnail_size [OF s n, unfolded t] by (elim exE conjE)
  have "f = (example_thumbnail, \<lparr>width = 1200, height = 800, orientation = 1\<rparr>)"
    using f by (simp add: db_def example_media_db_def empty_db_def lookup_def)
  then have "width p = 600 \<and> height p = 400"
    using g by (simp add: exif_transpose_def exact_float_def trunc_def Let_def)
  then have c: "Mesh_save exact_float example_time db m = (Inr m', db') \<and>
      lookup fst example_thumbnail (media db') = Some (example_thumbnail, p) \<and>
      width p = 600 \<and> height p = 400"
    using s l by simp
  show ?thesis
    by (rule exI [of _ m'], rule exI [of _ db'], rule exI [of _ p])
      (rule c [unfolded m_def db_def])
qed

end
